theory Spec2Isabelle
  imports Main "HOL-Library.Word"
begin

section \<open>Inference handlers of the NGC PyTorch example\<close>

text \<open>
  The directory \<^verbatim>\<open>Pytorch BYOM from NGC\<close> holds two handler scripts,
  \<^verbatim>\<open>transform_script.py\<close> and \<^verbatim>\<open>transform_script_hub.py\<close>. Each defines
  \<^verbatim>\<open>model_fn(model_dir)\<close> and \<^verbatim>\<open>input_fn(request_body, request_content_type)\<close>.
  Every handler makes at most one call into PyTorch (\<^verbatim>\<open>torch.load\<close> or
  \<^verbatim>\<open>torch.hub.load\<close>) and returns what that call returns. PyTorch is not part of
  the repository: it is a parameter of the model, a function from a call and the
  environment it runs in to a result and the environment it leaves behind.
\<close>

subsection \<open>Values, errors and the framework\<close>

type_synonym byte = "8 word"

text \<open>The argument of \<^verbatim>\<open>torch.load\<close>: a path, or \<^verbatim>\<open>BytesIO(b)\<close> over bytes.\<close>

datatype load_src = FilePath string | BytesIO "byte list"

text \<open>
  The two framework calls of the scripts. A hub load carries the repository, the entry
  point and the keyword arguments in the order they are written.
\<close>

datatype call =
    TorchLoad load_src
  | HubLoad string string "(string \<times> string) list"

text \<open>A Python result: \<^verbatim>\<open>None\<close>, or an object of the framework (a model, a tensor).\<close>

datatype 'o py_value = PyNone | PyObject 'o

datatype py_error =
    SyntaxError
  | FileNotFoundError
  | UnpicklingError
  | DeviceUnavailable
  | NetworkError
  | OtherError string

type_synonym ('w, 'o) framework = "call \<Rightarrow> 'w \<Rightarrow> (py_error + 'o py_value) \<times> 'w"

text \<open>
  What a run has seen so far: the environment of the framework (files, hub, devices,
  caches) and the framework calls made, oldest first.
\<close>

record 'w runtime =
  world :: 'w
  calls :: "call list"

type_synonym ('w, 'o) handler_result = "(py_error + 'o py_value) \<times> 'w runtime"

text \<open>One framework call: its result is handed back as it is, an exception included.\<close>

definition perform :: "('w, 'o) framework \<Rightarrow> call \<Rightarrow> 'w runtime \<Rightarrow> ('w, 'o) handler_result" where
  "perform fw c s =
     (fst (fw c (world s)), \<lparr>world = snd (fw c (world s)), calls = calls s @ [c]\<rparr>)"

subsection \<open>The text of the scripts\<close>

text \<open>
  The lines of the two files, as they stand. Python compiles a file as a whole before it
  runs any of it, and reads a statement across line ends for as long as a bracket is
  open, so whether a \<^verbatim>\<open>def\<close> of a file can ever be called is a property of the text
  of the file.
\<close>

definition script_header :: "string list" where
  "script_header =
     ['''',
      ''import torch'',
      ''import os'',
      ''from six import BytesIO'',
      ''import numpy as np'',
      '''']"

definition model_fn_line8 :: string where
  "model_fn_line8 =
     ''    model = torch.load(os.path.join(model_dir, 'nvidia_ssdpyt_fp32_190826.pt')''"

definition model_fn_src :: "string list" where
  "model_fn_src =
     [''def model_fn(model_dir):'',
      model_fn_line8,
      ''    return model'']"

definition blank_line10 :: string where
  "blank_line10 = replicate 23 (CHR '' '')"

definition input_fn_src :: "string list" where
  \<open>input_fn_src =
     [''def input_fn(request_body, request_content_type):'',
      ''    """An input_fn that loads a pickled tensor"""'',
      ''    if request_content_type == 'application/python-pickle':'',
      ''        return torch.load(BytesIO(request_body))'',
      ''    else:'',
      ''        # Handle other content-types here or raise an Exception'',
      ''        # if the content type is not supported.'',
      ''        pass'']\<close>

definition transform_script_py :: "string list" where
  "transform_script_py = script_header @ model_fn_src @ [blank_line10] @ input_fn_src"

definition model_fn_hub_src :: "string list" where
  "model_fn_hub_src =
     [''def model_fn(model_dir):'',
      ''    model = torch.hub.load('NVIDIA/DeepLearningExamples:torchhub', 'nvidia_ssd', model_math='fp32',map_location='gpu')'',
      ''    return model'']"

definition input_fn_hub_src :: "string list" where
  "input_fn_hub_src =
     [''def input_fn(request_body, request_content_type):'',
      ''    return torch.load(BytesIO(request_body))'']"

definition transform_script_hub_py :: "string list" where
  "transform_script_hub_py =
     script_header @ model_fn_hub_src @ [blank_line10] @ input_fn_hub_src"

subsection \<open>Brackets, strings and comments, as Python's tokenizer tracks them\<close>

datatype lex_mode = Code | Comment | Str char bool

definition newline :: char where
  "newline = CHR 0x0A"

definition is_quote :: "char \<Rightarrow> bool" where
  "is_quote c = (c = CHR 0x27 \<or> c = CHR 0x22)"

definition is_open :: "char \<Rightarrow> bool" where
  "is_open c = (c = CHR ''('' \<or> c = CHR ''['' \<or> c = CHR ''{'')"

definition is_close :: "char \<Rightarrow> bool" where
  "is_close c = (c = CHR '')'' \<or> c = CHR '']'' \<or> c = CHR ''}'')"

definition closer :: "char \<Rightarrow> char" where
  "closer c = (if c = CHR ''('' then CHR '')'' else if c = CHR ''['' then CHR '']'' else CHR ''}'')"

text \<open>
  \<open>scan m stk cs\<close> reads the characters \<open>cs\<close> in mode \<open>m\<close> with the brackets \<open>stk\<close>
  open (innermost first). A \<^verbatim>\<open>#\<close> starts a comment that runs to the end of the line;
  a quote starts a string, triple-quoted when three quotes stand together; in a string
  a backslash takes the next character with it, and a string of one quote may not hold
  a line end. A closing bracket must close the innermost open one. The result is the
  brackets still open at the end of the text, or the error.
\<close>

fun scan :: "lex_mode \<Rightarrow> char list \<Rightarrow> string \<Rightarrow> py_error + char list" where
  "scan Code stk [] = Inr stk"
| "scan Comment stk [] = Inr stk"
| "scan (Str q t) stk [] = Inl SyntaxError"
| "scan Code stk (c # cs) =
     (if c = CHR ''#'' then scan Comment stk cs
      else if is_quote c then
        (if take 2 cs = [c, c] then scan (Str c True) stk (drop 2 cs)
         else scan (Str c False) stk cs)
      else if is_open c then scan Code (c # stk) cs
      else if is_close c then
        (case stk of
           [] \<Rightarrow> Inl SyntaxError
         | d # stk' \<Rightarrow> if closer d = c then scan Code stk' cs else Inl SyntaxError)
      else scan Code stk cs)"
| "scan Comment stk (c # cs) =
     (if c = newline then scan Code stk cs else scan Comment stk cs)"
| "scan (Str q t) stk (c # cs) =
     (if c = CHR 0x5C then scan (Str q t) stk (drop 1 cs)
      else if c = q then
        (if t then
           (if take 2 cs = [q, q] then scan Code stk (drop 2 cs) else scan (Str q t) stk cs)
         else scan Code stk cs)
      else if c = newline \<and> \<not> t then Inl SyntaxError
      else scan (Str q t) stk cs)"

text \<open>The text of a file or of a statement: its lines, each ended by a line end.\<close>

definition unlines :: "string list \<Rightarrow> string" where
  "unlines ls = concat (map (\<lambda>l. l @ [newline]) ls)"

text \<open>
  The compiler's verdict as far as brackets and strings decide it: a text that leaves a
  bracket open at its end, closes one that is not open or does not end a string is
  refused with \<^verbatim>\<open>SyntaxError\<close> before any of it runs.
\<close>

definition bracket_error :: "string list \<Rightarrow> py_error option" where
  "bracket_error ls =
     (case scan Code [] (unlines ls) of
        Inl e \<Rightarrow> Some e
      | Inr [] \<Rightarrow> None
      | Inr (b # bs) \<Rightarrow> Some SyntaxError)"

text \<open>
  Calling a \<^verbatim>\<open>def\<close> of a file: when the file is refused the call raises, and nothing
  of any body in it runs; otherwise the body runs.
\<close>

definition run_def ::
  "string list \<Rightarrow> ('w runtime \<Rightarrow> ('w, 'o) handler_result) \<Rightarrow> 'w runtime \<Rightarrow> ('w, 'o) handler_result" where
  "run_def file body s =
     (case bracket_error file of
        Some e \<Rightarrow> (Inl e, s)
      | None \<Rightarrow> body s)"

subsection \<open>The handlers\<close>

text \<open>\<^verbatim>\<open>os.path.join(a, b)\<close> of \<^verbatim>\<open>posixpath\<close>, for two components.\<close>

definition os_path_join :: "string \<Rightarrow> string \<Rightarrow> string" where
  "os_path_join a b =
     (if take 1 b = ''/'' then b
      else if a = [] \<or> last a = CHR ''/'' then a @ b
      else a @ ''/'' @ b)"

text \<open>
  \<^verbatim>\<open>transform_script.py\<close>, \<^verbatim>\<open>model_fn\<close>. The body is the reading of lines 8 and 9
  with the call to \<^verbatim>\<open>torch.load\<close> closed after its one argument; the text of the
  file, \<open>transform_script_py\<close>, is what decides whether it is ever reached.
\<close>

definition model_fn :: "('w, 'o) framework \<Rightarrow> string \<Rightarrow> 'w runtime \<Rightarrow> ('w, 'o) handler_result" where
  "model_fn fw model_dir =
     run_def transform_script_py
       (perform fw (TorchLoad (FilePath (os_path_join model_dir ''nvidia_ssdpyt_fp32_190826.pt''))))"

text \<open>
  \<^verbatim>\<open>transform_script.py\<close>, \<^verbatim>\<open>input_fn\<close>, lines 11 to 18 of the same file: the
  \<^verbatim>\<open>else\<close> branch is \<^verbatim>\<open>pass\<close>, so the body falls off its end and returns \<^verbatim>\<open>None\<close>.
\<close>

definition input_fn ::
  "('w, 'o) framework \<Rightarrow> byte list \<Rightarrow> string \<Rightarrow> 'w runtime \<Rightarrow> ('w, 'o) handler_result" where
  "input_fn fw request_body request_content_type =
     run_def transform_script_py
       (\<lambda>s. if request_content_type = ''application/python-pickle''
            then perform fw (TorchLoad (BytesIO request_body)) s
            else (Inr PyNone, s))"

text \<open>\<^verbatim>\<open>transform_script_hub.py\<close>, \<^verbatim>\<open>model_fn\<close>.\<close>

definition model_fn_hub :: "('w, 'o) framework \<Rightarrow> string \<Rightarrow> 'w runtime \<Rightarrow> ('w, 'o) handler_result" where
  "model_fn_hub fw model_dir =
     run_def transform_script_hub_py
       (perform fw
          (HubLoad ''NVIDIA/DeepLearningExamples:torchhub'' ''nvidia_ssd''
             [(''model_math'', ''fp32''), (''map_location'', ''gpu'')]))"

text \<open>\<^verbatim>\<open>transform_script_hub.py\<close>, \<^verbatim>\<open>input_fn\<close>.\<close>

definition input_fn_hub ::
  "('w, 'o) framework \<Rightarrow> byte list \<Rightarrow> string \<Rightarrow> 'w runtime \<Rightarrow> ('w, 'o) handler_result" where
  "input_fn_hub fw request_body request_content_type =
     run_def transform_script_hub_py (perform fw (TorchLoad (BytesIO request_body)))"

text \<open>
  The four entry points the hosting runtime can call, and a call of any of them. The
  scripts define no global variable and store no attribute, so a run carries nothing
  from one call to the next but the framework's environment.
\<close>

datatype invocation =
    ModelFn string
  | InputFn "byte list" string
  | ModelFnHub string
  | InputFnHub "byte list" string

fun invoke :: "('w, 'o) framework \<Rightarrow> invocation \<Rightarrow> 'w runtime \<Rightarrow> ('w, 'o) handler_result" where
  "invoke fw (ModelFn model_dir) = model_fn fw model_dir"
| "invoke fw (InputFn request_body request_content_type) =
     input_fn fw request_body request_content_type"
| "invoke fw (ModelFnHub model_dir) = model_fn_hub fw model_dir"
| "invoke fw (InputFnHub request_body request_content_type) =
     input_fn_hub fw request_body request_content_type"

subsection \<open>A small framework to run the handlers on\<close>

text \<open>
  A stand-in for PyTorch on which the handlers can be evaluated: files hold named
  models, a payload is a marker byte followed by the tensor's bytes, and a hub load
  needs the device it is asked for. It reads its environment and never changes it.
\<close>

datatype sample_obj = Model string | Tensor "byte list"

record sample_world =
  files :: "(string \<times> string) list"
  devices :: "string list"

definition sample_save :: "sample_obj \<Rightarrow> byte list" where
  "sample_save x = (case x of Tensor bs \<Rightarrow> 0x80 # bs | Model n \<Rightarrow> [])"

definition sample_framework :: "(sample_world, sample_obj) framework" where
  "sample_framework c w =
     (case c of
        TorchLoad (FilePath p) \<Rightarrow>
          (case map_of (files w) p of
             None \<Rightarrow> (Inl FileNotFoundError, w)
           | Some n \<Rightarrow> (Inr (PyObject (Model n)), w))
      | TorchLoad (BytesIO bs) \<Rightarrow>
          (case bs of
             [] \<Rightarrow> (Inl UnpicklingError, w)
           | b # rest \<Rightarrow>
               if b = 0x80 then (Inr (PyObject (Tensor rest)), w)
               else (Inl UnpicklingError, w))
      | HubLoad repo arch kwargs \<Rightarrow>
          (case map_of kwargs ''map_location'' of
             None \<Rightarrow> (Inr (PyObject (Model arch)), w)
           | Some d \<Rightarrow>
               if d \<in> set (devices w) then (Inr (PyObject (Model arch)), w)
               else (Inl DeviceUnavailable, w)))"

definition model_dir_with_weights :: "sample_world runtime" where
  "model_dir_with_weights =
     \<lparr>world = \<lparr>files = [(''/opt/ml/model/nvidia_ssdpyt_fp32_190826.pt'', ''ssd300'')],
               devices = []\<rparr>,
      calls = []\<rparr>"

definition model_dir_empty :: "sample_world runtime" where
  "model_dir_empty = \<lparr>world = \<lparr>files = [], devices = []\<rparr>, calls = []\<rparr>"

definition host_with_gpu :: "sample_world runtime" where
  "host_with_gpu = \<lparr>world = \<lparr>files = [], devices = [''gpu'']\<rparr>, calls = []\<rparr>"

text \<open>
  A second stand-in, for a hub that answers a bounded number of requests: the
  environment is the number of requests left, and each hub load uses one up.
\<close>

definition rate_limited_hub :: "(nat, sample_obj) framework" where
  "rate_limited_hub c w =
     (case c of
        HubLoad repo arch kwargs \<Rightarrow>
          (if w = 0 then (Inl NetworkError, w) else (Inr (PyObject (Model arch)), w - 1))
      | TorchLoad src \<Rightarrow> (Inl UnpicklingError, w))"

definition one_request_left :: "nat runtime" where
  "one_request_left = \<lparr>world = 1, calls = []\<rparr>"

section \<open>What the text of each file decides\<close>

text \<open>
  Line 8 of \<^verbatim>\<open>transform_script.py\<close> opens two round brackets and closes one. The
  bracket stays open to the last line of the file, so the file is refused, and with it
  both of its definitions: \<^verbatim>\<open>input_fn\<close>, whose own lines close every bracket they open,
  stands after line 8 in the same file. \<^verbatim>\<open>transform_script_hub.py\<close> is accepted.
\<close>

lemma line8_leaves_paren_open: "scan Code [] model_fn_line8 = Inr ''(''"
  by code_simp

lemma model_fn_src_refused: "bracket_error model_fn_src = Some SyntaxError"
  by code_simp

lemma input_fn_src_closed: "bracket_error input_fn_src = None"
  by code_simp

lemma transform_script_py_refused: "bracket_error transform_script_py = Some SyntaxError"
  by code_simp

lemma transform_script_hub_py_closed: "bracket_error transform_script_hub_py = None"
  by code_simp

lemma model_fn_raises: "model_fn fw model_dir s = (Inl SyntaxError, s)"
  by (simp add: model_fn_def run_def_def transform_script_py_refused)

lemma input_fn_raises:
  "input_fn fw request_body request_content_type s = (Inl SyntaxError, s)"
  by (simp add: input_fn_def run_def_def transform_script_py_refused)

lemma model_fn_hub_body:
  "model_fn_hub fw model_dir s =
     perform fw
       (HubLoad ''NVIDIA/DeepLearningExamples:torchhub'' ''nvidia_ssd''
          [(''model_math'', ''fp32''), (''map_location'', ''gpu'')]) s"
  by (simp add: model_fn_hub_def run_def_def transform_script_hub_py_closed)

lemma input_fn_hub_body:
  "input_fn_hub fw request_body request_content_type s =
     perform fw (TorchLoad (BytesIO request_body)) s"
  by (simp add: input_fn_hub_def run_def_def transform_script_hub_py_closed)

lemma sample_framework_reads_only: "snd (sample_framework c w) = w"
  by (simp add: sample_framework_def
      split: call.splits load_src.splits option.splits list.splits)

section \<open>The model loader of transform\_script.py\<close>

text \<open>
  C8. The local-file loader never returns a model, whatever the directory and whatever
  the framework would do: line 8 leaves one round bracket open, so neither the text of
  \<^verbatim>\<open>model_fn\<close> nor the file is accepted, and a call ends in \<^verbatim>\<open>SyntaxError\<close> with the
  run as it was before, that is with no framework call made and no file touched.
\<close>

theorem model_fn_never_loads:
  "scan Code [] model_fn_line8 = Inr ''(''
   \<and> bracket_error model_fn_src = Some SyntaxError
   \<and> bracket_error transform_script_py = Some SyntaxError
   \<and> model_fn fw model_dir s = (Inl SyntaxError, s)"
  by (simp add: line8_leaves_paren_open model_fn_src_refused transform_script_py_refused
      model_fn_raises)

text \<open>
  C1. The claim: for a directory that holds \<^verbatim>\<open>nvidia_ssdpyt_fp32_190826.pt\<close> the loader
  returns a model and does not raise. The code at such a directory: the load that lines
  8 and 9 spell out would give the model of the file, and the call of \<^verbatim>\<open>model_fn\<close>
  raises \<^verbatim>\<open>SyntaxError\<close> instead.
\<close>

theorem model_fn_weights_present_raises:
  "fst (perform sample_framework
          (TorchLoad (FilePath (os_path_join ''/opt/ml/model'' ''nvidia_ssdpyt_fp32_190826.pt'')))
          model_dir_with_weights) = Inr (PyObject (Model ''ssd300''))
   \<and> model_fn sample_framework ''/opt/ml/model'' model_dir_with_weights
       = (Inl SyntaxError, model_dir_with_weights)"
  by (simp add: model_fn_raises perform_def sample_framework_def os_path_join_def
      model_dir_with_weights_def)

text \<open>
  C6. The claim: for a directory without the weights file the loader fails with a
  file-not-found error, the framework's own, passed on as it is. The code at such a
  directory: the load that lines 8 and 9 spell out would raise \<^verbatim>\<open>FileNotFoundError\<close>,
  and the call of \<^verbatim>\<open>model_fn\<close> raises \<^verbatim>\<open>SyntaxError\<close>, which is not that error.
\<close>

theorem model_fn_weights_absent_raises:
  "fst (perform sample_framework
          (TorchLoad (FilePath (os_path_join ''/opt/ml/model'' ''nvidia_ssdpyt_fp32_190826.pt'')))
          model_dir_empty) = Inl FileNotFoundError
   \<and> fst (model_fn sample_framework ''/opt/ml/model'' model_dir_empty) = Inl SyntaxError
   \<and> fst (model_fn sample_framework ''/opt/ml/model'' model_dir_empty) \<noteq> Inl FileNotFoundError"
  by (simp add: model_fn_raises perform_def sample_framework_def os_path_join_def
      model_dir_empty_def)

section \<open>The input decoder of transform\_script.py\<close>

text \<open>
  C2. The claim: with the content type \<^verbatim>\<open>application/python-pickle\<close>, \<^verbatim>\<open>input_fn\<close>
  deserializes the request body and returns the tensor. The code at a body that the
  deserializer reads as a tensor: the load that line 14 spells out would give that
  tensor, and the call of \<^verbatim>\<open>input_fn\<close> raises \<^verbatim>\<open>SyntaxError\<close> with no framework call
  made, because the file it stands in is refused at line 8.
\<close>

theorem input_fn_pickle_raises:
  "fst (perform sample_framework (TorchLoad (BytesIO [0x80, 1, 2])) model_dir_empty)
     = Inr (PyObject (Tensor [1, 2]))
   \<and> input_fn sample_framework [0x80, 1, 2] ''application/python-pickle'' model_dir_empty
       = (Inl SyntaxError, model_dir_empty)"
  by (simp add: input_fn_raises perform_def sample_framework_def model_dir_empty_def)

text \<open>
  C3. The claim: a tensor serialized by the framework and given to \<^verbatim>\<open>input_fn\<close> with
  the content type \<^verbatim>\<open>application/python-pickle\<close> comes back equal. The code at a
  tensor whose bytes the deserializer does read back as that tensor: the call of
  \<^verbatim>\<open>input_fn\<close> raises \<^verbatim>\<open>SyntaxError\<close> and returns no tensor.
\<close>

theorem input_fn_round_trip_raises:
  "fst (sample_framework (TorchLoad (BytesIO (sample_save (Tensor [7, 0, 255]))))
          (world host_with_gpu)) = Inr (PyObject (Tensor [7, 0, 255]))
   \<and> fst (input_fn sample_framework (sample_save (Tensor [7, 0, 255]))
            ''application/python-pickle'' host_with_gpu) = Inl SyntaxError
   \<and> fst (input_fn sample_framework (sample_save (Tensor [7, 0, 255]))
            ''application/python-pickle'' host_with_gpu) \<noteq> Inr (PyObject (Tensor [7, 0, 255]))"
  by (simp add: input_fn_raises sample_framework_def sample_save_def)

text \<open>
  C4. The claim: for a content type other than \<^verbatim>\<open>application/python-pickle\<close>,
  \<^verbatim>\<open>input_fn\<close> raises nothing and returns \<^verbatim>\<open>None\<close>. The code at the content type
  \<^verbatim>\<open>text/plain\<close>: the call of \<^verbatim>\<open>input_fn\<close> raises \<^verbatim>\<open>SyntaxError\<close>; it does not return
  \<^verbatim>\<open>None\<close>.
\<close>

theorem input_fn_other_content_type_raises:
  "input_fn sample_framework [0x80, 1, 2] ''text/plain'' model_dir_empty
     = (Inl SyntaxError, model_dir_empty)
   \<and> fst (input_fn sample_framework [0x80, 1, 2] ''text/plain'' model_dir_empty) \<noteq> Inr PyNone"
  by (simp add: input_fn_raises)

section \<open>The handlers of transform\_script\_hub.py\<close>

text \<open>
  C5. The hub script's \<^verbatim>\<open>input_fn\<close> does not look at the content type: for any two
  content types it gives the same result, the deserialization of the request body.
\<close>

theorem input_fn_hub_ignores_content_type:
  "input_fn_hub fw request_body content_type1 s = input_fn_hub fw request_body content_type2 s
   \<and> input_fn_hub fw request_body content_type1 s
       = (fst (fw (TorchLoad (BytesIO request_body)) (world s)),
          \<lparr>world = snd (fw (TorchLoad (BytesIO request_body)) (world s)),
           calls = calls s @ [TorchLoad (BytesIO request_body)]\<rparr>)"
  by (simp add: input_fn_hub_body perform_def)

text \<open>
  C7. The hub script's \<^verbatim>\<open>model_fn\<close> makes one hub load: repository
  \<^verbatim>\<open>NVIDIA/DeepLearningExamples:torchhub\<close>, entry point \<^verbatim>\<open>nvidia_ssd\<close>, precision
  \<^verbatim>\<open>model_math='fp32'\<close>, device \<^verbatim>\<open>map_location='gpu'\<close>. When the hub answers this
  request with a model, that model is returned; when it answers that the device is not
  available, the call fails with that error.
\<close>

theorem model_fn_hub_fetch:
  "calls (snd (model_fn_hub fw model_dir s))
     = calls s @ [HubLoad ''NVIDIA/DeepLearningExamples:torchhub'' ''nvidia_ssd''
                    [(''model_math'', ''fp32''), (''map_location'', ''gpu'')]]
   \<and> (fst (fw (HubLoad ''NVIDIA/DeepLearningExamples:torchhub'' ''nvidia_ssd''
                 [(''model_math'', ''fp32''), (''map_location'', ''gpu'')]) (world s))
         = Inr (PyObject m)
       \<longrightarrow> fst (model_fn_hub fw model_dir s) = Inr (PyObject m))
   \<and> (fst (fw (HubLoad ''NVIDIA/DeepLearningExamples:torchhub'' ''nvidia_ssd''
                 [(''model_math'', ''fp32''), (''map_location'', ''gpu'')]) (world s))
         = Inl DeviceUnavailable
       \<longrightarrow> fst (model_fn_hub fw model_dir s) = Inl DeviceUnavailable)"
  by (simp add: model_fn_hub_body perform_def)

theorem model_fn_hub_fetch_witness:
  "fst (sample_framework (HubLoad ''NVIDIA/DeepLearningExamples:torchhub'' ''nvidia_ssd''
          [(''model_math'', ''fp32''), (''map_location'', ''gpu'')]) (world host_with_gpu))
     = Inr (PyObject (Model ''nvidia_ssd''))
   \<and> fst (model_fn_hub sample_framework ''/opt/ml/model'' host_with_gpu)
       = Inr (PyObject (Model ''nvidia_ssd''))
   \<and> fst (sample_framework (HubLoad ''NVIDIA/DeepLearningExamples:torchhub'' ''nvidia_ssd''
          [(''model_math'', ''fp32''), (''map_location'', ''gpu'')]) (world model_dir_empty))
     = Inl DeviceUnavailable
   \<and> fst (model_fn_hub sample_framework ''/opt/ml/model'' model_dir_empty)
       = Inl DeviceUnavailable"
proof -
  have ok: "fst (sample_framework (HubLoad ''NVIDIA/DeepLearningExamples:torchhub'' ''nvidia_ssd''
          [(''model_math'', ''fp32''), (''map_location'', ''gpu'')]) (world host_with_gpu))
     = Inr (PyObject (Model ''nvidia_ssd''))"
    by (simp add: sample_framework_def host_with_gpu_def)
  have bad: "fst (sample_framework (HubLoad ''NVIDIA/DeepLearningExamples:torchhub'' ''nvidia_ssd''
          [(''model_math'', ''fp32''), (''map_location'', ''gpu'')]) (world model_dir_empty))
     = Inl DeviceUnavailable"
    by (simp add: sample_framework_def model_dir_empty_def)
  from ok bad
    model_fn_hub_fetch
      [of sample_framework "''/opt/ml/model''" host_with_gpu "Model ''nvidia_ssd''"]
    model_fn_hub_fetch
      [of sample_framework "''/opt/ml/model''" model_dir_empty "Model ''nvidia_ssd''"]
  show ?thesis by simp
qed

text \<open>
  C9. The hub script's \<^verbatim>\<open>model_fn\<close> does not look at its directory argument: for any
  two directories it makes the same hub load, with the same repository, entry point,
  precision and device arguments, and gives the same result.
\<close>

theorem model_fn_hub_ignores_model_dir:
  "model_fn_hub fw model_dir1 s = model_fn_hub fw model_dir2 s
   \<and> calls (snd (model_fn_hub fw model_dir1 s))
       = calls s @ [HubLoad ''NVIDIA/DeepLearningExamples:torchhub'' ''nvidia_ssd''
                      [(''model_math'', ''fp32''), (''map_location'', ''gpu'')]]
   \<and> fst (model_fn_hub fw model_dir1 s)
       = fst (fw (HubLoad ''NVIDIA/DeepLearningExamples:torchhub'' ''nvidia_ssd''
                      [(''model_math'', ''fp32''), (''map_location'', ''gpu'')]) (world s))"
  by (simp add: model_fn_hub_body perform_def)

section \<open>Whether calls depend on one another\<close>

lemma invoke_result_world:
  "fst (invoke fw i s) = fst (invoke fw i \<lparr>world = world s, calls = []\<rparr>)"
  by (cases i) (simp_all add: model_fn_raises input_fn_raises model_fn_hub_body
      input_fn_hub_body perform_def)

lemma invoke_keeps_world:
  "\<forall>c w. snd (fw c w) = w \<Longrightarrow> world (snd (invoke fw i s)) = world s"
  by (cases i) (simp_all add: model_fn_raises input_fn_raises model_fn_hub_body
      input_fn_hub_body perform_def)

text \<open>
  C10, as stated: two calls of the same handler with the same arguments give the same
  result, and no call changes the outcome of a later one. This fails where the framework
  keeps state of its own. With a hub that has one request left, the first call of the
  hub script's \<^verbatim>\<open>model_fn\<close> returns the model and the second call, with the same
  argument, fails.
\<close>

theorem handlers_independent_counterexample:
  "fst (invoke rate_limited_hub (ModelFnHub ''/opt/ml/model'') one_request_left)
     = Inr (PyObject (Model ''nvidia_ssd''))
   \<and> fst (invoke rate_limited_hub (ModelFnHub ''/opt/ml/model'')
            (snd (invoke rate_limited_hub (ModelFnHub ''/opt/ml/model'') one_request_left)))
       = Inl NetworkError
   \<and> fst (invoke rate_limited_hub (ModelFnHub ''/opt/ml/model'')
            (snd (invoke rate_limited_hub (ModelFnHub ''/opt/ml/model'') one_request_left)))
       \<noteq> fst (invoke rate_limited_hub (ModelFnHub ''/opt/ml/model'') one_request_left)"
  by (simp add: model_fn_hub_body perform_def rate_limited_hub_def one_request_left_def)

text \<open>
  C10, amended. The handlers keep no state of their own: what a call of a hub handler
  returns, and the environment it leaves, are those of its one framework call on the
  environment it finds. Hence, with a framework whose loads leave the environment as it
  is, a call of any handler \<open>j\<close> leaves the environment unchanged and does not change
  the result of a later call of any handler \<open>i\<close>; with \<open>j = i\<close>, two calls with the same
  arguments give the same result.
\<close>

theorem handlers_independent_when_framework_reads_only:
  "fst (invoke fw (ModelFnHub model_dir) s)
     = fst (fw (HubLoad ''NVIDIA/DeepLearningExamples:torchhub'' ''nvidia_ssd''
                  [(''model_math'', ''fp32''), (''map_location'', ''gpu'')]) (world s))
   \<and> world (snd (invoke fw (ModelFnHub model_dir) s))
       = snd (fw (HubLoad ''NVIDIA/DeepLearningExamples:torchhub'' ''nvidia_ssd''
                    [(''model_math'', ''fp32''), (''map_location'', ''gpu'')]) (world s))
   \<and> fst (invoke fw (InputFnHub request_body request_content_type) s)
       = fst (fw (TorchLoad (BytesIO request_body)) (world s))
   \<and> world (snd (invoke fw (InputFnHub request_body request_content_type) s))
       = snd (fw (TorchLoad (BytesIO request_body)) (world s))
   \<and> ((\<forall>c w. snd (fw c w) = w) \<longrightarrow>
        world (snd (invoke fw j s)) = world s
        \<and> fst (invoke fw i (snd (invoke fw j s))) = fst (invoke fw i s))"
proof (intro conjI impI)
  assume ro: "\<forall>c w. snd (fw c w) = w"
  show w: "world (snd (invoke fw j s)) = world s"
    using ro by (rule invoke_keeps_world)
  show "fst (invoke fw i (snd (invoke fw j s))) = fst (invoke fw i s)"
    using invoke_result_world [of fw i "snd (invoke fw j s)"] invoke_result_world [of fw i s] w
    by simp
qed (simp_all add: model_fn_hub_body input_fn_hub_body perform_def)

theorem handlers_independent_when_framework_reads_only_witness:
  "(\<forall>c w. snd (sample_framework c w) = w)
   \<and> world (snd (invoke sample_framework (InputFnHub [0x80, 5] ''application/python-pickle'')
                    host_with_gpu)) = world host_with_gpu
   \<and> fst (invoke sample_framework (ModelFnHub ''/opt/ml/model'')
            (snd (invoke sample_framework (InputFnHub [0x80, 5] ''application/python-pickle'')
                    host_with_gpu)))
       = fst (invoke sample_framework (ModelFnHub ''/opt/ml/model'') host_with_gpu)
   \<and> fst (invoke sample_framework (ModelFnHub ''/opt/ml/model'') host_with_gpu)
       = Inr (PyObject (Model ''nvidia_ssd''))"
proof -
  have ro: "\<forall>c w. snd (sample_framework c w) = w"
    by (simp add: sample_framework_reads_only)
  from ro
    handlers_independent_when_framework_reads_only
      [of sample_framework "''/opt/ml/model''" host_with_gpu "[0x80, 5]"
        "''application/python-pickle''" "InputFnHub [0x80, 5] ''application/python-pickle''"
        "ModelFnHub ''/opt/ml/model''"]
  show ?thesis by (simp add: sample_framework_def host_with_gpu_def)
qed

end
